theory Spec2Isabelle
  imports Main "HOL-Library.Word"
begin

section \<open>The tracer core of the APM agent (tracer.go)\<close>

text \<open>
  A shallow embedding of \<^verbatim>\<open>Tracer.loop\<close> and of the \<^verbatim>\<open>sender\<close> it drives.
  One call of \<open>iteration\<close> is one pass through the body of the \<^verbatim>\<open>for\<close> loop: the
  \<^verbatim>\<open>select\<close> picks one ready case (the event), the case is handled, and the pass either
  continues early or goes on to the send phase. Everything the loop calls on another
  component (records, pools, processor, transport, logger, timer, completion channel)
  is written to a log of calls, in program order.
\<close>

subsection \<open>Machine integers\<close>

text \<open>
  Go's \<^verbatim>\<open>int\<close> and \<^verbatim>\<open>time.Duration\<close> are 64-bit two's complement words (read with
  \<open>sint\<close>); the counters of \<^verbatim>\<open>TracerStats\<close> are \<^verbatim>\<open>uint64\<close> and wrap around.
\<close>

type_synonym go_int = "64 word"
type_synonym uint64 = "64 word"

definition int64_wrap :: "int \<Rightarrow> int" where
  "int64_wrap x = (x + 2 ^ 63) mod 2 ^ 64 - 2 ^ 63"

subsection \<open>Records, collaborators and the log of calls\<close>

text \<open>
  A \<^verbatim>\<open>*Transaction\<close> and an \<^verbatim>\<open>*Error\<close> are pointers: a record is known by its
  address, and what is done to it is a call in the log. A non-nil Go \<^verbatim>\<open>error\<close> is its
  message; \<open>None\<close> is \<^verbatim>\<open>nil\<close>.
\<close>

datatype txptr = TxPtr nat
datatype errptr = ErrPtr nat
type_synonym go_error = string

datatype call =
    Tx_reset txptr
  | TransactionPool_Put txptr
  | Err_reset errptr
  | ErrorPool_Put errptr
  | Tx_setContext txptr
  | Err_setContext errptr
  | Tx_setID txptr
  | Tx_Context_build txptr
  | Err_setStacktrace errptr
  | Err_setCulprit errptr
  | Err_Context_build errptr
  | ProcessTransaction nat txptr
  | ProcessError nat errptr
  | Transport_SendTransactions "txptr list" "go_error option"
  | Transport_SendErrors "errptr list" "go_error option"
  | Logger_Debugf string
  | FlushTimer_Reset go_int
  | Flushed_Signal nat

text \<open>
  What the collaborators answer during one iteration. Their code is outside tracer.go,
  so each answer is a parameter: whether \<^verbatim>\<open>setContext\<close> fails on a record (for a given
  setter and pre/post context), whether a transaction is sampled, which transaction an
  error refers to, and what the transport returns for a payload.
\<close>

record collaborators =
  tx_setContext :: "nat \<Rightarrow> go_int \<Rightarrow> go_int \<Rightarrow> txptr \<Rightarrow> go_error option"
  err_setContext :: "nat \<Rightarrow> go_int \<Rightarrow> go_int \<Rightarrow> errptr \<Rightarrow> go_error option"
  tx_Sampled :: "txptr \<Rightarrow> bool"
  err_Transaction :: "errptr \<Rightarrow> txptr option"
  SendTransactions_result :: "txptr list \<Rightarrow> go_error option"
  SendErrors_result :: "errptr list \<Rightarrow> go_error option"

subsection \<open>TracerStats\<close>

text \<open>
  The struct is declared outside tracer.go. Its fields are the counters that tracer.go,
  the tests and the specification name; all of them are \<^verbatim>\<open>uint64\<close>.
\<close>

record TracerStatsErrors =
  SetContext :: uint64
  SendTransactions :: uint64
  SendErrors :: uint64

record TracerStats =
  Errors :: TracerStatsErrors
  ErrorsSent :: uint64
  ErrorsDropped :: uint64
  TransactionsSent :: uint64
  TransactionsDropped :: uint64

definition zeroStats :: TracerStats where
  "zeroStats =
     \<lparr>Errors = \<lparr>SetContext = 0, SendTransactions = 0, SendErrors = 0\<rparr>,
      ErrorsSent = 0, ErrorsDropped = 0, TransactionsSent = 0, TransactionsDropped = 0\<rparr>"

text \<open>
  Modelled from the spec: \<^verbatim>\<open>TracerStats.isZero\<close> is not in tracer.go. The specification
  has the per-iteration delta committed to the shared stats only when it is non-zero,
  that is, when some counter of it is not 0.
\<close>

definition isZero :: "TracerStats \<Rightarrow> bool" where
  "isZero s \<longleftrightarrow> s = zeroStats"

text \<open>
  Modelled from the spec: \<^verbatim>\<open>TracerStats.accumulate\<close> is not in tracer.go. The
  specification says that accumulation is additive, counter by counter.
\<close>

definition accumulate :: "TracerStats \<Rightarrow> TracerStats \<Rightarrow> TracerStats" where
  "accumulate s rhs =
     \<lparr>Errors = \<lparr>SetContext = SetContext (Errors s) + SetContext (Errors rhs),
                SendTransactions = SendTransactions (Errors s) + SendTransactions (Errors rhs),
                SendErrors = SendErrors (Errors s) + SendErrors (Errors rhs)\<rparr>,
      ErrorsSent = ErrorsSent s + ErrorsSent rhs,
      ErrorsDropped = ErrorsDropped s + ErrorsDropped rhs,
      TransactionsSent = TransactionsSent s + TransactionsSent rhs,
      TransactionsDropped = TransactionsDropped s + TransactionsDropped rhs\<rparr>"

subsection \<open>The sender\<close>

text \<open>
  The fields of \<^verbatim>\<open>sender\<close> that the loop configures. \<open>None\<close> is a nil interface.
  \<^verbatim>\<open>SetProcessor\<close> only ever hands over nil or \<^verbatim>\<open>Processors(p)\<close>, so a configured
  processor is the list it was built from. The \<^verbatim>\<open>stats\<close> field points to the
  iteration's \<^verbatim>\<open>statsUpdates\<close>, which is passed and returned explicitly.
\<close>

record sender =
  logger :: "nat option"
  processor :: "nat list option"
  contextSetter :: "nat option"
  preContext :: go_int
  postContext :: go_int

definition debugf :: "sender \<Rightarrow> string \<Rightarrow> call list" where
  "debugf s msg = (if logger s \<noteq> None then [Logger_Debugf msg] else [])"

definition bump_SetContext :: "TracerStats \<Rightarrow> TracerStats" where
  "bump_SetContext st = st\<lparr>Errors := (Errors st)\<lparr>SetContext := SetContext (Errors st) + 1\<rparr>\<rparr>"

definition bump_SendTransactions :: "TracerStats \<Rightarrow> TracerStats" where
  "bump_SendTransactions st =
     st\<lparr>Errors := (Errors st)\<lparr>SendTransactions := SendTransactions (Errors st) + 1\<rparr>\<rparr>"

definition bump_SendErrors :: "TracerStats \<Rightarrow> TracerStats" where
  "bump_SendErrors st = st\<lparr>Errors := (Errors st)\<lparr>SendErrors := SendErrors (Errors st) + 1\<rparr>\<rparr>"

text \<open>
  The enrichment loop: \<^verbatim>\<open>for _, tx := range transactions { if err = tx.setContext(...);
  err != nil { break } }\<close>. It returns the calls made and the last \<^verbatim>\<open>err\<close>.
\<close>

fun setContext_loop :: "('r \<Rightarrow> go_error option) \<Rightarrow> ('r \<Rightarrow> call) \<Rightarrow> 'r list \<Rightarrow> call list \<times> go_error option" where
  "setContext_loop f c [] = ([], None)"
| "setContext_loop f c (r # rs) =
     (case f r of
        Some err \<Rightarrow> ([c r], Some err)
      | None \<Rightarrow> (case setContext_loop f c rs of (cs, res) \<Rightarrow> (c r # cs, res)))"

definition enrich :: "sender \<Rightarrow> (nat \<Rightarrow> go_int \<Rightarrow> go_int \<Rightarrow> 'r \<Rightarrow> go_error option) \<Rightarrow> ('r \<Rightarrow> call) \<Rightarrow>
    TracerStats \<Rightarrow> 'r list \<Rightarrow> call list \<times> TracerStats" where
  "enrich s f c st rs =
     (case contextSetter s of
        None \<Rightarrow> ([], st)
      | Some setter \<Rightarrow>
          (case setContext_loop (f setter (preContext s) (postContext s)) c rs of
             (cs, None) \<Rightarrow> (cs, st)
           | (cs, Some err) \<Rightarrow>
               (cs @ debugf s (''setting context failed: '' @ err), bump_SetContext st)))"

text \<open>
  Modelled from the spec: the composite \<^verbatim>\<open>Processors\<close> and its method
  \<^verbatim>\<open>ProcessTransaction\<close> are not in tracer.go. The specification has every registered
  processor called once with each record.
\<close>

definition Processors_ProcessTransaction :: "nat list \<Rightarrow> txptr \<Rightarrow> call list" where
  "Processors_ProcessTransaction ps tx = map (\<lambda>p. ProcessTransaction p tx) ps"

text \<open>
  Modelled from the spec: \<^verbatim>\<open>Processors.ProcessError\<close> is not in tracer.go either; it is
  the same for an error.
\<close>

definition Processors_ProcessError :: "nat list \<Rightarrow> errptr \<Rightarrow> call list" where
  "Processors_ProcessError ps e = map (\<lambda>p. ProcessError p e) ps"

text \<open>The body of the payload loop, for one record.\<close>

definition payload_tx :: "collaborators \<Rightarrow> sender \<Rightarrow> txptr \<Rightarrow> call list" where
  "payload_tx env s tx =
     [Tx_setID tx]
     @ (if tx_Sampled env tx then [Tx_Context_build tx] else [])
     @ (case processor s of None \<Rightarrow> [] | Some ps \<Rightarrow> Processors_ProcessTransaction ps tx)"

definition payload_err :: "collaborators \<Rightarrow> sender \<Rightarrow> errptr \<Rightarrow> call list" where
  "payload_err env s e =
     (case err_Transaction env e of None \<Rightarrow> [] | Some tx \<Rightarrow> [Tx_setID tx])
     @ [Err_setStacktrace e, Err_setCulprit e, Err_Context_build e]
     @ (case processor s of None \<Rightarrow> [] | Some ps \<Rightarrow> Processors_ProcessError ps e)"

text \<open>
  \<^verbatim>\<open>sender.sendTransactions\<close> and \<^verbatim>\<open>sender.sendErrors\<close>: the returned bool, the updated
  \<^verbatim>\<open>*s.stats\<close>, and the calls made.
\<close>

definition sender_sendTransactions ::
    "collaborators \<Rightarrow> sender \<Rightarrow> TracerStats \<Rightarrow> txptr list \<Rightarrow> bool \<times> TracerStats \<times> call list" where
  "sender_sendTransactions env s st transactions =
     (if length transactions = 0 then (False, st, [])
      else
        (case enrich s (tx_setContext env) Tx_setContext st transactions of
           (cs1, st1) \<Rightarrow>
             (let cs2 = concat (map (payload_tx env s) transactions);
                  res = SendTransactions_result env transactions;
                  cs3 = [Transport_SendTransactions transactions res]
              in case res of
                   Some err \<Rightarrow>
                     (False, bump_SendTransactions st1,
                      cs1 @ cs2 @ cs3 @ debugf s (''sending transactions failed: '' @ err))
                 | None \<Rightarrow>
                     (True,
                      st1\<lparr>TransactionsSent := TransactionsSent st1 + of_nat (length transactions)\<rparr>,
                      cs1 @ cs2 @ cs3))))"

definition sender_sendErrors ::
    "collaborators \<Rightarrow> sender \<Rightarrow> TracerStats \<Rightarrow> errptr list \<Rightarrow> bool \<times> TracerStats \<times> call list" where
  "sender_sendErrors env s st errs =
     (if length errs = 0 then (False, st, [])
      else
        (case enrich s (err_setContext env) Err_setContext st errs of
           (cs1, st1) \<Rightarrow>
             (let cs2 = concat (map (payload_err env s) errs);
                  res = SendErrors_result env errs;
                  cs3 = [Transport_SendErrors errs res]
              in case res of
                   Some err \<Rightarrow>
                     (False, bump_SendErrors st1,
                      cs1 @ cs2 @ cs3 @ debugf s (''sending errors failed: '' @ err))
                 | None \<Rightarrow>
                     (True,
                      st1\<lparr>ErrorsSent := ErrorsSent st1 + of_nat (length errs)\<rparr>,
                      cs1 @ cs2 @ cs3))))"

subsection \<open>The state of the loop\<close>

text \<open>
  The local variables of \<^verbatim>\<open>Tracer.loop\<close> that live across iterations, and the parts
  of the \<^verbatim>\<open>Tracer\<close> the loop reads and writes: the contents of the buffered channels
  \<^verbatim>\<open>t.transactions\<close> and \<^verbatim>\<open>t.errors\<close> (oldest first) and the shared \<^verbatim>\<open>t.stats\<close>.
  A channel variable that is either nil or the tracer's channel is a bool (\<open>True\<close>:
  not nil); \<open>flushed\<close> holds the completion channel of the pending Flush call.
\<close>

record loop_state =
  flushInterval :: go_int
  flushed :: "nat option"
  maxTransactionQueueSize :: go_int
  maxErrorQueueSize :: go_int
  flushC :: bool
  transactions :: "txptr list"
  errors :: "errptr list"
  sender :: sender
  errorsC :: bool
  forceFlush :: bool
  t_transactions :: "txptr list"
  t_errors :: "errptr list"
  t_stats :: TracerStats

definition init_state :: loop_state where
  "init_state =
     \<lparr>flushInterval = 0, flushed = None, maxTransactionQueueSize = 0, maxErrorQueueSize = 0,
      flushC = False, transactions = [], errors = [],
      sender = \<lparr>logger = None, processor = None, contextSetter = None,
                 preContext = 0, postContext = 0\<rparr>,
      errorsC = True, forceFlush = True, t_transactions = [], t_errors = [],
      t_stats = zeroStats\<rparr>"

text \<open>
  \<^verbatim>\<open>startTimer\<close>: nothing when the timer is already started, otherwise the timer is
  reset to \<^verbatim>\<open>flushInterval\<close> and \<^verbatim>\<open>flushC\<close> is set to its channel.
\<close>

definition startTimer :: "loop_state \<Rightarrow> loop_state \<times> call list" where
  "startTimer s =
     (if flushC s then (s, [])
      else (s\<lparr>flushC := True\<rparr>, [FlushTimer_Reset (flushInterval s)]))"

text \<open>
  \<^verbatim>\<open>receivedTransaction\<close>, on the queue, the cap and the stats it is given. The
  conversion \<^verbatim>\<open>uint64(len(transactions) - maxTransactionQueueSize + 1)\<close> is of a
  positive number, since the branch is guarded by \<^verbatim>\<open>len >= max > 0\<close>.
\<close>

definition recycle_tx :: "txptr \<Rightarrow> call list" where
  "recycle_tx tx = [Tx_reset tx, TransactionPool_Put tx]"

definition recycle_err :: "errptr \<Rightarrow> call list" where
  "recycle_err e = [Err_reset e, ErrorPool_Put e]"

definition receivedTransaction ::
    "go_int \<Rightarrow> txptr list \<Rightarrow> txptr \<Rightarrow> TracerStats \<Rightarrow> txptr list \<times> TracerStats \<times> call list" where
  "receivedTransaction maxq txs tx stats =
     (if sint maxq > 0 \<and> int (length txs) \<ge> sint maxq then
        (let n = nat (int (length txs) - sint maxq + 1)
         in (drop n txs @ [tx],
             stats\<lparr>TransactionsDropped := TransactionsDropped stats + of_nat n\<rparr>,
             concat (map recycle_tx (take n txs))))
      else (txs @ [tx], stats, []))"

text \<open>
  The drain of a forced flush: \<^verbatim>\<open>for n := len(t.transactions); n > 0; n-- { tx :=
  <-t.transactions; receivedTransaction(tx, &statsUpdates) }\<close>, over the channel's
  contents at that moment.
\<close>

fun drainTransactions ::
    "go_int \<Rightarrow> txptr list \<Rightarrow> txptr list \<Rightarrow> TracerStats \<Rightarrow> txptr list \<times> TracerStats \<times> call list" where
  "drainTransactions maxq [] txs stats = (txs, stats, [])"
| "drainTransactions maxq (tx # ch) txs stats =
     (case receivedTransaction maxq txs tx stats of
        (txs1, stats1, cs1) \<Rightarrow>
          (case drainTransactions maxq ch txs1 stats1 of
             (txs2, stats2, cs2) \<Rightarrow> (txs2, stats2, cs1 @ cs2)))"

text \<open>
  The drain of the errors channel: \<^verbatim>\<open>for n := len(t.errors); n > 0 && remainder > 0; n--
  { errors = append(errors, <-t.errors); remainder-- }\<close>. It returns the queue and what
  is left in the channel.
\<close>

fun drainErrors :: "int \<Rightarrow> errptr list \<Rightarrow> errptr list \<Rightarrow> errptr list \<times> errptr list" where
  "drainErrors remainder errs [] = (errs, [])"
| "drainErrors remainder errs (e # ch) =
     (if remainder > 0 then drainErrors (remainder - 1) (errs @ [e]) ch else (errs, e # ch))"

text \<open>\<^verbatim>\<open>remainder := maxErrorQueueSize - len(errors)\<close>, in 64-bit arithmetic.\<close>

definition remainder_of :: "loop_state \<Rightarrow> int" where
  "remainder_of s = int64_wrap (sint (maxErrorQueueSize s) - int (length (errors s)))"

subsection \<open>One iteration of the loop\<close>

text \<open>
  The cases of the \<^verbatim>\<open>select\<close>. A receive from a channel carries no value here: it
  takes the oldest element of the channel's contents in the state.
\<close>

datatype event =
    Closing
  | SetFlushInterval go_int
  | SetMaxTransactionQueueSize go_int
  | SetMaxErrorQueueSize go_int
  | SetPreContext go_int
  | SetPostContext go_int
  | SetContextSetter "nat option"
  | SetLogger "nat option"
  | SetProcessor "nat list option"
  | RecvError
  | RecvTransaction
  | FlushTimerFired
  | ForceFlush nat

text \<open>
  How the handling of a case ends: the loop returns, it continues with the next
  iteration, or it goes on to the send phase with the flag \<^verbatim>\<open>sendTransactions\<close>, the
  \<^verbatim>\<open>statsUpdates\<close> so far and the calls so far.
\<close>

datatype selected =
    Return
  | Continue loop_state "call list"
  | SendPhase loop_state bool TracerStats "call list"

text \<open>
  \<open>None\<close>: the case is not ready in this state (a receive from a nil channel or from
  an empty one), so the \<^verbatim>\<open>select\<close> cannot pick it.
\<close>

definition select_RecvTransaction :: "loop_state \<Rightarrow> selected option" where
  "select_RecvTransaction s =
     (case t_transactions s of
        [] \<Rightarrow> None
      | tx # ch \<Rightarrow>
          (let beforeLen = length (transactions s)
           in case receivedTransaction (maxTransactionQueueSize s) (transactions s) tx zeroStats of
                (txs, statsUpdates, cs) \<Rightarrow>
                  (let s1 = s\<lparr>transactions := txs, t_transactions := ch\<rparr>
                   in if length txs = beforeLen \<and> flushC s1 then
                        Some (Continue (s1\<lparr>t_stats := accumulate (t_stats s1) statsUpdates\<rparr>) cs)
                      else if sint (maxTransactionQueueSize s1) \<le> 0
                              \<or> int (length txs) < sint (maxTransactionQueueSize s1) then
                        (case startTimer s1 of (s2, cs2) \<Rightarrow> Some (Continue s2 (cs @ cs2)))
                      else Some (SendPhase s1 True statsUpdates cs))))"

definition select_ForceFlush :: "nat \<Rightarrow> loop_state \<Rightarrow> selected option" where
  "select_ForceFlush c s =
     (if forceFlush s then
        (case drainTransactions (maxTransactionQueueSize s) (t_transactions s) (transactions s) zeroStats of
           (txs, statsUpdates, cs) \<Rightarrow>
             Some (SendPhase
                     (s\<lparr>flushed := Some c, transactions := txs, t_transactions := [],
                        forceFlush := False, flushC := False\<rparr>)
                     True statsUpdates cs))
      else None)"

fun select_case :: "event \<Rightarrow> loop_state \<Rightarrow> selected option" where
  "select_case Closing s = Some Return"
| "select_case (SetFlushInterval d) s = Some (Continue (s\<lparr>flushInterval := d\<rparr>) [])"
| "select_case (SetMaxTransactionQueueSize n) s =
     (let s1 = s\<lparr>maxTransactionQueueSize := n\<rparr>
      in if sint n \<le> 0 \<or> int (length (transactions s1)) < sint n then Some (Continue s1 [])
         else Some (SendPhase s1 False zeroStats []))"
| "select_case (SetMaxErrorQueueSize n) s =
     (let s1 = s\<lparr>maxErrorQueueSize := n\<rparr>
      in if sint n \<le> 0 \<or> int (length (errors s1)) < sint n
         then Some (Continue (s1\<lparr>errorsC := True\<rparr>) [])
         else Some (Continue s1 []))"
| "select_case (SetPreContext n) s = Some (Continue (s\<lparr>sender := (sender s)\<lparr>preContext := n\<rparr>\<rparr>) [])"
| "select_case (SetPostContext n) s = Some (Continue (s\<lparr>sender := (sender s)\<lparr>postContext := n\<rparr>\<rparr>) [])"
| "select_case (SetContextSetter cs) s =
     Some (Continue (s\<lparr>sender := (sender s)\<lparr>contextSetter := cs\<rparr>\<rparr>) [])"
| "select_case (SetLogger l) s = Some (Continue (s\<lparr>sender := (sender s)\<lparr>logger := l\<rparr>\<rparr>) [])"
| "select_case (SetProcessor p) s = Some (Continue (s\<lparr>sender := (sender s)\<lparr>processor := p\<rparr>\<rparr>) [])"
| "select_case RecvError s =
     (if errorsC s then
        (case t_errors s of
           [] \<Rightarrow> None
         | e # ch \<Rightarrow> Some (SendPhase (s\<lparr>errors := errors s @ [e], t_errors := ch\<rparr>) False zeroStats []))
      else None)"
| "select_case RecvTransaction s = select_RecvTransaction s"
| "select_case FlushTimerFired s =
     (if flushC s then Some (SendPhase (s\<lparr>flushC := False\<rparr>) True zeroStats []) else None)"
| "select_case (ForceFlush c) s = select_ForceFlush c s"

text \<open>The send phase, in its four steps.\<close>

definition drain_step :: "loop_state \<Rightarrow> loop_state" where
  "drain_step s =
     (if remainder_of s > 0 then
        (case drainErrors (remainder_of s) (errors s) (t_errors s) of
           (errs, ch) \<Rightarrow> s\<lparr>errors := errs, t_errors := ch\<rparr>)
      else s)"

definition errors_step ::
    "collaborators \<Rightarrow> loop_state \<Rightarrow> TracerStats \<Rightarrow> loop_state \<times> TracerStats \<times> call list" where
  "errors_step env s st =
     (case sender_sendErrors env (sender s) st (errors s) of
        (ok, st1, cs) \<Rightarrow>
          if ok then
            (s\<lparr>errors := [], errorsC := True\<rparr>, st1, cs @ concat (map recycle_err (errors s)))
          else if int (length (errors s)) = sint (maxErrorQueueSize s) then
            (s\<lparr>errorsC := False\<rparr>, st1, cs)
          else (s, st1, cs))"

definition transactions_step ::
    "collaborators \<Rightarrow> bool \<Rightarrow> loop_state \<Rightarrow> TracerStats \<Rightarrow> loop_state \<times> TracerStats \<times> call list" where
  "transactions_step env sendTxs s st =
     (if sendTxs then
        (case sender_sendTransactions env (sender s) st (transactions s) of
           (ok, st1, cs) \<Rightarrow>
             if ok then (s\<lparr>transactions := []\<rparr>, st1, cs @ concat (map recycle_tx (transactions s)))
             else (s, st1, cs))
      else (s, st, []))"

definition signal_step :: "bool \<Rightarrow> loop_state \<Rightarrow> loop_state \<times> call list" where
  "signal_step sendTxs s =
     (case flushed s of
        Some c \<Rightarrow>
          if sendTxs then (s\<lparr>forceFlush := True, flushed := None\<rparr>, [Flushed_Signal c])
          else (s, [])
      | None \<Rightarrow> (s, []))"

definition finish_step :: "bool \<Rightarrow> loop_state \<Rightarrow> TracerStats \<Rightarrow> loop_state \<times> call list" where
  "finish_step sendTxs s statsUpdates =
     (if \<not> isZero statsUpdates then
        (let s1 = s\<lparr>t_stats := accumulate (t_stats s) statsUpdates\<rparr>
         in if SendTransactions (Errors statsUpdates) \<noteq> 0 \<or> SendErrors (Errors statsUpdates) \<noteq> 0
            then startTimer s1
            else signal_step sendTxs s1)
      else signal_step sendTxs s)"

definition send_phase ::
    "collaborators \<Rightarrow> loop_state \<Rightarrow> bool \<Rightarrow> TracerStats \<Rightarrow> loop_state \<times> call list" where
  "send_phase env s sendTxs statsUpdates =
     (case errors_step env (drain_step s) statsUpdates of
        (s1, st1, cs1) \<Rightarrow>
          (case transactions_step env sendTxs s1 st1 of
             (s2, st2, cs2) \<Rightarrow>
               (case finish_step sendTxs s2 st2 of
                  (s3, cs3) \<Rightarrow> (s3, cs1 @ cs2 @ cs3))))"

datatype iteration_result =
    NotReady
  | Terminated
  | Next loop_state "call list"

definition iteration :: "collaborators \<Rightarrow> event \<Rightarrow> loop_state \<Rightarrow> iteration_result" where
  "iteration env ev s =
     (case select_case ev s of
        None \<Rightarrow> NotReady
      | Some Return \<Rightarrow> Terminated
      | Some (Continue s1 cs) \<Rightarrow> Next s1 cs
      | Some (SendPhase s1 sendTxs statsUpdates cs) \<Rightarrow>
          (case send_phase env s1 sendTxs statsUpdates of (s2, cs2) \<Rightarrow> Next s2 (cs @ cs2)))"

subsection \<open>Reading the log\<close>

fun pooled_tx :: "call \<Rightarrow> txptr list" where
  "pooled_tx (TransactionPool_Put tx) = [tx]"
| "pooled_tx _ = []"

fun reset_tx :: "call \<Rightarrow> txptr list" where
  "reset_tx (Tx_reset tx) = [tx]"
| "reset_tx _ = []"

fun pooled_err :: "call \<Rightarrow> errptr list" where
  "pooled_err (ErrorPool_Put e) = [e]"
| "pooled_err _ = []"

fun reset_err :: "call \<Rightarrow> errptr list" where
  "reset_err (Err_reset e) = [e]"
| "reset_err _ = []"

fun transport_call :: "call \<Rightarrow> call list" where
  "transport_call (Transport_SendTransactions b r) = [Transport_SendTransactions b r]"
| "transport_call (Transport_SendErrors b r) = [Transport_SendErrors b r]"
| "transport_call _ = []"

fun delivered_tx :: "call \<Rightarrow> txptr list" where
  "delivered_tx (Transport_SendTransactions b None) = b"
| "delivered_tx _ = []"

fun delivered_err :: "call \<Rightarrow> errptr list" where
  "delivered_err (Transport_SendErrors b None) = b"
| "delivered_err _ = []"

fun setContext_call :: "call \<Rightarrow> call list" where
  "setContext_call (Tx_setContext tx) = [Tx_setContext tx]"
| "setContext_call (Err_setContext e) = [Err_setContext e]"
| "setContext_call _ = []"

fun process_call :: "call \<Rightarrow> call list" where
  "process_call (ProcessTransaction p tx) = [ProcessTransaction p tx]"
| "process_call (ProcessError p e) = [ProcessError p e]"
| "process_call _ = []"

fun timer_call :: "call \<Rightarrow> call list" where
  "timer_call (FlushTimer_Reset d) = [FlushTimer_Reset d]"
| "timer_call _ = []"

fun signal_call :: "call \<Rightarrow> nat list" where
  "signal_call (Flushed_Signal c) = [c]"
| "signal_call _ = []"

text \<open>The calls of one kind in a log, in order.\<close>

definition pooled_txs :: "call list \<Rightarrow> txptr list" where
  "pooled_txs cs = concat (map pooled_tx cs)"

definition reset_txs :: "call list \<Rightarrow> txptr list" where
  "reset_txs cs = concat (map reset_tx cs)"

definition pooled_errs :: "call list \<Rightarrow> errptr list" where
  "pooled_errs cs = concat (map pooled_err cs)"

definition reset_errs :: "call list \<Rightarrow> errptr list" where
  "reset_errs cs = concat (map reset_err cs)"

definition transport_calls :: "call list \<Rightarrow> call list" where
  "transport_calls cs = concat (map transport_call cs)"

definition delivered_txs :: "call list \<Rightarrow> txptr list" where
  "delivered_txs cs = concat (map delivered_tx cs)"

definition delivered_errs :: "call list \<Rightarrow> errptr list" where
  "delivered_errs cs = concat (map delivered_err cs)"

definition setContext_calls :: "call list \<Rightarrow> call list" where
  "setContext_calls cs = concat (map setContext_call cs)"

definition process_calls :: "call list \<Rightarrow> call list" where
  "process_calls cs = concat (map process_call cs)"

definition timer_calls :: "call list \<Rightarrow> call list" where
  "timer_calls cs = concat (map timer_call cs)"

definition signal_calls :: "call list \<Rightarrow> nat list" where
  "signal_calls cs = concat (map signal_call cs)"

subsection \<open>The facade, as far as the loop sees it\<close>


definition transactionsChannelCap :: nat where
  "transactionsChannelCap = 1000"

definition errorsChannelCap :: nat where
  "errorsChannelCap = 1000"

text \<open>
  Modelled from the spec: the submission of a transaction by a producer is outside
  tracer.go. The specification gives it as a non-blocking send onto the buffered
  channel, which counts a drop and discards the record when the buffer is full.
\<close>

definition submit_transaction :: "txptr \<Rightarrow> loop_state \<Rightarrow> loop_state" where
  "submit_transaction tx s =
     (if length (t_transactions s) < transactionsChannelCap
      then s\<lparr>t_transactions := t_transactions s @ [tx]\<rparr>
      else s\<lparr>t_stats := (t_stats s)\<lparr>TransactionsDropped := TransactionsDropped (t_stats s) + 1\<rparr>\<rparr>)"

text \<open>
  Modelled from the spec: the submission of an error, outside tracer.go as well, is the
  same against the errors channel and \<^verbatim>\<open>ErrorsDropped\<close>.
\<close>

definition submit_error :: "errptr \<Rightarrow> loop_state \<Rightarrow> loop_state" where
  "submit_error e s =
     (if length (t_errors s) < errorsChannelCap
      then s\<lparr>t_errors := t_errors s @ [e]\<rparr>
      else s\<lparr>t_stats := (t_stats s)\<lparr>ErrorsDropped := ErrorsDropped (t_stats s) + 1\<rparr>\<rparr>)"

subsection \<open>Runs\<close>

text \<open>
  A run interleaves iterations of the loop (each with the collaborators' answers for
  that iteration) with submissions by producers. \<open>run\<close> is \<open>None\<close> when an event is
  not ready where it stands, or stands after the loop has returned.
\<close>

datatype action =
    Loop collaborators event
  | Submit_transaction txptr
  | Submit_error errptr

fun act :: "action \<Rightarrow> loop_state \<Rightarrow> (loop_state \<times> call list) option" where
  "act (Loop env ev) s =
     (case iteration env ev s of Next s1 cs \<Rightarrow> Some (s1, cs) | _ \<Rightarrow> None)"
| "act (Submit_transaction tx) s = Some (submit_transaction tx s, [])"
| "act (Submit_error e) s = Some (submit_error e s, [])"

fun run :: "action list \<Rightarrow> loop_state \<Rightarrow> (loop_state \<times> call list) option" where
  "run [] s = Some (s, [])"
| "run (a # as) s =
     (case act a s of
        None \<Rightarrow> None
      | Some (s1, cs1) \<Rightarrow>
          (case run as s1 of None \<Rightarrow> None | Some (s2, cs2) \<Rightarrow> Some (s2, cs1 @ cs2)))"






subsection \<open>Collaborators used in the examples\<close>

text \<open>
  The transports of the repository's tests: \<^verbatim>\<open>transporttest.Discard\<close>, which accepts
  every payload, and \<^verbatim>\<open>transporttest.ErrorTransport{Error: errors.New("nope")}\<close>, which
  refuses every payload. In both, no context setting fails.
\<close>

definition Discard :: collaborators where
  "Discard =
     \<lparr>tx_setContext = (\<lambda>setter pre post tx. None),
      err_setContext = (\<lambda>setter pre post e. None),
      tx_Sampled = (\<lambda>tx. True),
      err_Transaction = (\<lambda>e. None),
      SendTransactions_result = (\<lambda>b. None),
      SendErrors_result = (\<lambda>b. None)\<rparr>"

definition ErrorTransport :: collaborators where
  "ErrorTransport =
     \<lparr>tx_setContext = (\<lambda>setter pre post tx. None),
      err_setContext = (\<lambda>setter pre post e. None),
      tx_Sampled = (\<lambda>tx. True),
      err_Transaction = (\<lambda>e. None),
      SendTransactions_result = (\<lambda>b. Some ''nope''),
      SendErrors_result = (\<lambda>b. Some ''nope'')\<rparr>"

text \<open>A context setter that fails on the record at address 2 and on no other.\<close>

definition FailingSetter :: collaborators where
  "FailingSetter =
     \<lparr>tx_setContext = (\<lambda>setter pre post tx. if tx = TxPtr 2 then Some ''no source'' else None),
      err_setContext = (\<lambda>setter pre post e. if e = ErrPtr 2 then Some ''no source'' else None),
      tx_Sampled = (\<lambda>tx. True),
      err_Transaction = (\<lambda>e. None),
      SendTransactions_result = (\<lambda>b. None),
      SendErrors_result = (\<lambda>b. None)\<rparr>"

subsection \<open>Conditions of the loop, named\<close>





section \<open>Properties\<close>

subsection \<open>Auxiliary facts\<close>


lemma pooled_txs_recycle: "pooled_txs (concat (map recycle_tx xs)) = xs"
  by (induction xs) (simp_all add: pooled_txs_def recycle_tx_def)

lemma reset_txs_recycle: "reset_txs (concat (map recycle_tx xs)) = xs"
  by (induction xs) (simp_all add: reset_txs_def recycle_tx_def)

subsection \<open>Appending to the transaction queue\<close>

text \<open>
  C1. An append by \<^verbatim>\<open>receivedTransaction\<close> removes the \<open>n\<close> oldest transactions of the
  queue, where \<open>n = len(transactions) - maxTransactionQueueSize + 1\<close> when
  \<^verbatim>\<open>maxTransactionQueueSize\<close> is positive and the queue already holds at least that
  many, and \<open>n = 0\<close> otherwise. Exactly these \<open>n\<close> transactions are reset and put
  back into the pool, \<^verbatim>\<open>TransactionsDropped\<close> grows by \<open>n\<close> (as a \<^verbatim>\<open>uint64\<close>), the
  retained transactions keep their order, and the new one stands at the back. Under a
  positive cap the queue is no longer than the cap right after the append.
\<close>

theorem receivedTransaction_drop_oldest:
  "(let n = (if 0 < sint maxq \<and> sint maxq \<le> int (length txs)
             then nat (int (length txs) - sint maxq + 1) else 0);
        r = receivedTransaction maxq txs tx stats
    in fst r = drop n txs @ [tx]
     \<and> length (take n txs) = n
     \<and> reset_txs (snd (snd r)) = take n txs
     \<and> pooled_txs (snd (snd r)) = take n txs
     \<and> TransactionsDropped (fst (snd r)) = TransactionsDropped stats + of_nat n
     \<and> (0 < sint maxq \<longrightarrow> int (length (fst r)) \<le> sint maxq))"
proof (cases "0 < sint maxq \<and> sint maxq \<le> int (length txs)")
  case True
  then have cap: "0 < sint maxq" and full: "sint maxq \<le> int (length txs)"
    by simp_all
  then show ?thesis
    by (simp add: receivedTransaction_def Let_def pooled_txs_recycle reset_txs_recycle)
next
  case False
  then show ?thesis
    by (auto simp: receivedTransaction_def Let_def pooled_txs_def reset_txs_def)
qed

theorem receivedTransaction_drop_oldest_witness:
  "fst (receivedTransaction 2 [TxPtr 1, TxPtr 2, TxPtr 3] (TxPtr 4) zeroStats) = [TxPtr 3, TxPtr 4]
   \<and> pooled_txs (snd (snd (receivedTransaction 2 [TxPtr 1, TxPtr 2, TxPtr 3] (TxPtr 4) zeroStats)))
       = [TxPtr 1, TxPtr 2]
   \<and> TransactionsDropped (fst (snd (receivedTransaction 2 [TxPtr 1, TxPtr 2, TxPtr 3] (TxPtr 4) zeroStats))) = 2"
  using receivedTransaction_drop_oldest [of 2 "[TxPtr 1, TxPtr 2, TxPtr 3]" "TxPtr 4" zeroStats]
  by (simp add: Let_def zeroStats_def)

subsection \<open>Facts about the log and the sender\<close>

lemma log_append:
  "transport_calls (xs @ ys) = transport_calls xs @ transport_calls ys"
  "setContext_calls (xs @ ys) = setContext_calls xs @ setContext_calls ys"
  "process_calls (xs @ ys) = process_calls xs @ process_calls ys"
  "pooled_txs (xs @ ys) = pooled_txs xs @ pooled_txs ys"
  "reset_txs (xs @ ys) = reset_txs xs @ reset_txs ys"
  "pooled_errs (xs @ ys) = pooled_errs xs @ pooled_errs ys"
  "reset_errs (xs @ ys) = reset_errs xs @ reset_errs ys"
  "delivered_txs (xs @ ys) = delivered_txs xs @ delivered_txs ys"
  "delivered_errs (xs @ ys) = delivered_errs xs @ delivered_errs ys"
  "timer_calls (xs @ ys) = timer_calls xs @ timer_calls ys"
  "signal_calls (xs @ ys) = signal_calls xs @ signal_calls ys"
  by (simp_all add: transport_calls_def setContext_calls_def process_calls_def
      pooled_txs_def reset_txs_def pooled_errs_def reset_errs_def
      delivered_txs_def delivered_errs_def timer_calls_def signal_calls_def)

lemma log_Nil:
  "transport_calls [] = []" "setContext_calls [] = []" "process_calls [] = []"
  "pooled_txs [] = []" "reset_txs [] = []" "pooled_errs [] = []" "reset_errs [] = []"
  "delivered_txs [] = []" "delivered_errs [] = []" "timer_calls [] = []" "signal_calls [] = []"
  by (simp_all add: transport_calls_def setContext_calls_def process_calls_def
      pooled_txs_def reset_txs_def pooled_errs_def reset_errs_def
      delivered_txs_def delivered_errs_def timer_calls_def signal_calls_def)

lemma log_Cons:
  "transport_calls (c # cs) = transport_call c @ transport_calls cs"
  "setContext_calls (c # cs) = setContext_call c @ setContext_calls cs"
  "process_calls (c # cs) = process_call c @ process_calls cs"
  "pooled_txs (c # cs) = pooled_tx c @ pooled_txs cs"
  "reset_txs (c # cs) = reset_tx c @ reset_txs cs"
  "pooled_errs (c # cs) = pooled_err c @ pooled_errs cs"
  "reset_errs (c # cs) = reset_err c @ reset_errs cs"
  "delivered_txs (c # cs) = delivered_tx c @ delivered_txs cs"
  "delivered_errs (c # cs) = delivered_err c @ delivered_errs cs"
  "timer_calls (c # cs) = timer_call c @ timer_calls cs"
  "signal_calls (c # cs) = signal_call c @ signal_calls cs"
  by (simp_all add: transport_calls_def setContext_calls_def process_calls_def
      pooled_txs_def reset_txs_def pooled_errs_def reset_errs_def
      delivered_txs_def delivered_errs_def timer_calls_def signal_calls_def)

lemmas log_simps = log_append log_Nil log_Cons

lemma debugf_log:
  "transport_calls (debugf s m) = []" "setContext_calls (debugf s m) = []"
  "process_calls (debugf s m) = []" "pooled_txs (debugf s m) = []" "reset_txs (debugf s m) = []"
  "pooled_errs (debugf s m) = []" "reset_errs (debugf s m) = []"
  "delivered_txs (debugf s m) = []" "delivered_errs (debugf s m) = []"
  "timer_calls (debugf s m) = []" "signal_calls (debugf s m) = []"
  by (simp_all add: debugf_def log_simps)

lemma setContext_loop_calls:
  "fst (setContext_loop f c rs) =
     map c (take (Suc (length (takeWhile (\<lambda>r. f r = None) rs))) rs)"
  by (induction rs) (simp_all add: case_prod_beta split: option.splits)

lemma setContext_loop_result:
  "(snd (setContext_loop f c rs) = None) = (\<forall>r\<in>set rs. f r = None)"
  by (induction rs) (simp_all add: case_prod_beta split: option.splits)

lemma map_Tx_setContext_log:
  "transport_calls (map Tx_setContext xs) = []" "setContext_calls (map Tx_setContext xs) = map Tx_setContext xs"
  "process_calls (map Tx_setContext xs) = []" "pooled_txs (map Tx_setContext xs) = []"
  "reset_txs (map Tx_setContext xs) = []" "pooled_errs (map Tx_setContext xs) = []"
  "reset_errs (map Tx_setContext xs) = []" "delivered_txs (map Tx_setContext xs) = []"
  "delivered_errs (map Tx_setContext xs) = []" "timer_calls (map Tx_setContext xs) = []"
  "signal_calls (map Tx_setContext xs) = []"
  by (induction xs; simp add: log_simps)+

lemma map_Err_setContext_log:
  "transport_calls (map Err_setContext xs) = []" "setContext_calls (map Err_setContext xs) = map Err_setContext xs"
  "process_calls (map Err_setContext xs) = []" "pooled_txs (map Err_setContext xs) = []"
  "reset_txs (map Err_setContext xs) = []" "pooled_errs (map Err_setContext xs) = []"
  "reset_errs (map Err_setContext xs) = []" "delivered_txs (map Err_setContext xs) = []"
  "delivered_errs (map Err_setContext xs) = []" "timer_calls (map Err_setContext xs) = []"
  "signal_calls (map Err_setContext xs) = []"
  by (induction xs; simp add: log_simps)+

lemma enrich_tx_log:
  "transport_calls (fst (enrich s f Tx_setContext st rs)) = []"
  "process_calls (fst (enrich s f Tx_setContext st rs)) = []"
  "pooled_txs (fst (enrich s f Tx_setContext st rs)) = []"
  "reset_txs (fst (enrich s f Tx_setContext st rs)) = []"
  "pooled_errs (fst (enrich s f Tx_setContext st rs)) = []"
  "reset_errs (fst (enrich s f Tx_setContext st rs)) = []"
  "delivered_txs (fst (enrich s f Tx_setContext st rs)) = []"
  "delivered_errs (fst (enrich s f Tx_setContext st rs)) = []"
  "timer_calls (fst (enrich s f Tx_setContext st rs)) = []"
  "signal_calls (fst (enrich s f Tx_setContext st rs)) = []"
  by (simp_all add: enrich_def case_prod_beta setContext_loop_calls log_append debugf_log
      map_Tx_setContext_log log_Nil split: option.splits)

lemma enrich_err_log:
  "transport_calls (fst (enrich s f Err_setContext st rs)) = []"
  "process_calls (fst (enrich s f Err_setContext st rs)) = []"
  "pooled_txs (fst (enrich s f Err_setContext st rs)) = []"
  "reset_txs (fst (enrich s f Err_setContext st rs)) = []"
  "pooled_errs (fst (enrich s f Err_setContext st rs)) = []"
  "reset_errs (fst (enrich s f Err_setContext st rs)) = []"
  "delivered_txs (fst (enrich s f Err_setContext st rs)) = []"
  "delivered_errs (fst (enrich s f Err_setContext st rs)) = []"
  "timer_calls (fst (enrich s f Err_setContext st rs)) = []"
  "signal_calls (fst (enrich s f Err_setContext st rs)) = []"
  by (simp_all add: enrich_def case_prod_beta setContext_loop_calls log_append debugf_log
      map_Err_setContext_log log_Nil split: option.splits)

lemma enrich_stats:
  "SendTransactions (Errors (snd (enrich s f c st rs))) = SendTransactions (Errors st)"
  "SendErrors (Errors (snd (enrich s f c st rs))) = SendErrors (Errors st)"
  "TransactionsSent (snd (enrich s f c st rs)) = TransactionsSent st"
  "ErrorsSent (snd (enrich s f c st rs)) = ErrorsSent st"
  "TransactionsDropped (snd (enrich s f c st rs)) = TransactionsDropped st"
  "ErrorsDropped (snd (enrich s f c st rs)) = ErrorsDropped st"
  by (simp_all add: enrich_def case_prod_beta bump_SetContext_def split: option.splits)

lemma enrich_SetContext:
  "contextSetter s = Some setter \<Longrightarrow>
   SetContext (Errors (snd (enrich s f c st rs))) =
     SetContext (Errors st) + (if \<forall>r\<in>set rs. f setter (preContext s) (postContext s) r = None then 0 else 1)"
  using setContext_loop_result [of "f setter (preContext s) (postContext s)" c rs]
  by (cases "snd (setContext_loop (f setter (preContext s) (postContext s)) c rs)")
     (auto simp: enrich_def case_prod_beta bump_SetContext_def)

lemma enrich_tx_setContext_calls:
  "contextSetter s = Some setter \<Longrightarrow>
   setContext_calls (fst (enrich s f Tx_setContext st rs)) =
     map Tx_setContext (take (Suc (length (takeWhile (\<lambda>r. f setter (preContext s) (postContext s) r = None) rs))) rs)"
  by (simp add: enrich_def case_prod_beta setContext_loop_calls log_append debugf_log
      map_Tx_setContext_log split: option.splits)

lemma enrich_err_setContext_calls:
  "contextSetter s = Some setter \<Longrightarrow>
   setContext_calls (fst (enrich s f Err_setContext st rs)) =
     map Err_setContext (take (Suc (length (takeWhile (\<lambda>r. f setter (preContext s) (postContext s) r = None) rs))) rs)"
  by (simp add: enrich_def case_prod_beta setContext_loop_calls log_append debugf_log
      map_Err_setContext_log split: option.splits)

lemma payload_tx_log:
  "transport_calls (concat (map (payload_tx env s) txs)) = []"
  "setContext_calls (concat (map (payload_tx env s) txs)) = []"
  "pooled_txs (concat (map (payload_tx env s) txs)) = []"
  "reset_txs (concat (map (payload_tx env s) txs)) = []"
  "pooled_errs (concat (map (payload_tx env s) txs)) = []"
  "reset_errs (concat (map (payload_tx env s) txs)) = []"
  "delivered_txs (concat (map (payload_tx env s) txs)) = []"
  "delivered_errs (concat (map (payload_tx env s) txs)) = []"
  "timer_calls (concat (map (payload_tx env s) txs)) = []"
  "signal_calls (concat (map (payload_tx env s) txs)) = []"
  by (auto simp: transport_calls_def setContext_calls_def
      pooled_txs_def reset_txs_def pooled_errs_def reset_errs_def
      delivered_txs_def delivered_errs_def timer_calls_def signal_calls_def
      payload_tx_def Processors_ProcessTransaction_def split: option.splits)

lemma payload_err_log:
  "transport_calls (concat (map (payload_err env s) es)) = []"
  "setContext_calls (concat (map (payload_err env s) es)) = []"
  "pooled_txs (concat (map (payload_err env s) es)) = []"
  "reset_txs (concat (map (payload_err env s) es)) = []"
  "pooled_errs (concat (map (payload_err env s) es)) = []"
  "reset_errs (concat (map (payload_err env s) es)) = []"
  "delivered_txs (concat (map (payload_err env s) es)) = []"
  "delivered_errs (concat (map (payload_err env s) es)) = []"
  "timer_calls (concat (map (payload_err env s) es)) = []"
  "signal_calls (concat (map (payload_err env s) es)) = []"
  by (auto simp: transport_calls_def setContext_calls_def
      pooled_txs_def reset_txs_def pooled_errs_def reset_errs_def
      delivered_txs_def delivered_errs_def timer_calls_def signal_calls_def
      payload_err_def Processors_ProcessError_def split: option.splits)





lemma sendTransactions_fst:
  "fst (sender_sendTransactions env s st txs) = (txs \<noteq> [] \<and> SendTransactions_result env txs = None)"
  by (simp add: sender_sendTransactions_def case_prod_beta Let_def split: option.splits)

lemma sendErrors_fst:
  "fst (sender_sendErrors env s st es) = (es \<noteq> [] \<and> SendErrors_result env es = None)"
  by (simp add: sender_sendErrors_def case_prod_beta Let_def split: option.splits)

lemma sendTransactions_log:
  "transport_calls (snd (snd (sender_sendTransactions env s st txs))) =
     (if txs = [] then [] else [Transport_SendTransactions txs (SendTransactions_result env txs)])"
  "pooled_txs (snd (snd (sender_sendTransactions env s st txs))) = []"
  "reset_txs (snd (snd (sender_sendTransactions env s st txs))) = []"
  "pooled_errs (snd (snd (sender_sendTransactions env s st txs))) = []"
  "reset_errs (snd (snd (sender_sendTransactions env s st txs))) = []"
  "delivered_txs (snd (snd (sender_sendTransactions env s st txs))) =
     (if fst (sender_sendTransactions env s st txs) then txs else [])"
  "delivered_errs (snd (snd (sender_sendTransactions env s st txs))) = []"
  "timer_calls (snd (snd (sender_sendTransactions env s st txs))) = []"
  "signal_calls (snd (snd (sender_sendTransactions env s st txs))) = []"
  by (simp_all add: sender_sendTransactions_def case_prod_beta Let_def log_simps
      enrich_tx_log payload_tx_log debugf_log split: option.splits)

lemma sendErrors_log:
  "transport_calls (snd (snd (sender_sendErrors env s st es))) =
     (if es = [] then [] else [Transport_SendErrors es (SendErrors_result env es)])"
  "pooled_txs (snd (snd (sender_sendErrors env s st es))) = []"
  "reset_txs (snd (snd (sender_sendErrors env s st es))) = []"
  "pooled_errs (snd (snd (sender_sendErrors env s st es))) = []"
  "reset_errs (snd (snd (sender_sendErrors env s st es))) = []"
  "delivered_txs (snd (snd (sender_sendErrors env s st es))) = []"
  "delivered_errs (snd (snd (sender_sendErrors env s st es))) =
     (if fst (sender_sendErrors env s st es) then es else [])"
  "timer_calls (snd (snd (sender_sendErrors env s st es))) = []"
  "signal_calls (snd (snd (sender_sendErrors env s st es))) = []"
  by (simp_all add: sender_sendErrors_def case_prod_beta Let_def log_simps
      enrich_err_log payload_err_log debugf_log split: option.splits)



lemma sendTransactions_stats:
  "SendTransactions (Errors (fst (snd (sender_sendTransactions env s st txs)))) =
     SendTransactions (Errors st) + (if txs \<noteq> [] \<and> SendTransactions_result env txs \<noteq> None then 1 else 0)"
  "SendErrors (Errors (fst (snd (sender_sendTransactions env s st txs)))) = SendErrors (Errors st)"
  "TransactionsSent (fst (snd (sender_sendTransactions env s st txs))) =
     TransactionsSent st + (if txs \<noteq> [] \<and> SendTransactions_result env txs = None then of_nat (length txs) else 0)"
  "ErrorsSent (fst (snd (sender_sendTransactions env s st txs))) = ErrorsSent st"
  by (auto simp add: sender_sendTransactions_def case_prod_beta Let_def enrich_stats
      bump_SendTransactions_def split: option.splits)

lemma sendErrors_stats:
  "SendErrors (Errors (fst (snd (sender_sendErrors env s st es)))) =
     SendErrors (Errors st) + (if es \<noteq> [] \<and> SendErrors_result env es \<noteq> None then 1 else 0)"
  "SendTransactions (Errors (fst (snd (sender_sendErrors env s st es)))) = SendTransactions (Errors st)"
  "ErrorsSent (fst (snd (sender_sendErrors env s st es))) =
     ErrorsSent st + (if es \<noteq> [] \<and> SendErrors_result env es = None then of_nat (length es) else 0)"
  "TransactionsSent (fst (snd (sender_sendErrors env s st es))) = TransactionsSent st"
  by (auto simp add: sender_sendErrors_def case_prod_beta Let_def enrich_stats
      bump_SendErrors_def split: option.splits)


lemma takeWhile_short: "\<exists>x\<in>set xs. \<not> P x \<Longrightarrow> length (takeWhile P xs) < length xs"
  by (induction xs) auto

subsection \<open>What a send returns and counts\<close>

text \<open>
  C5. For a non-empty batch, \<^verbatim>\<open>sendTransactions\<close> (and likewise \<^verbatim>\<open>sendErrors\<close>) makes
  exactly one transport call, for the whole batch, and returns true if and only if that
  call returns nil. On success \<^verbatim>\<open>TransactionsSent\<close> (\<^verbatim>\<open>ErrorsSent\<close>) grows by the
  length of the batch and the transport-error counter stays. On failure
  \<^verbatim>\<open>Errors.SendTransactions\<close> (\<^verbatim>\<open>Errors.SendErrors\<close>) grows by exactly 1, both sent
  counters stay, the result is false, and the records are left alone: no record is reset
  or put into a pool, and after the transport call only the logger is called. An empty
  batch returns false with the stats unchanged and no call made at all.
\<close>

theorem sender_send_outcome:
  "(txs \<noteq> [] \<longrightarrow>
      (let r = sender_sendTransactions env s st txs;
           res = SendTransactions_result env txs
       in (fst r \<longleftrightarrow> res = None)
        \<and> transport_calls (snd (snd r)) = [Transport_SendTransactions txs res]
        \<and> (res = None \<longrightarrow>
              TransactionsSent (fst (snd r)) = TransactionsSent st + of_nat (length txs)
            \<and> SendTransactions (Errors (fst (snd r))) = SendTransactions (Errors st))
        \<and> (\<forall>err. res = Some err \<longrightarrow>
              SendTransactions (Errors (fst (snd r))) = SendTransactions (Errors st) + 1
            \<and> TransactionsSent (fst (snd r)) = TransactionsSent st
            \<and> ErrorsSent (fst (snd r)) = ErrorsSent st
            \<and> reset_txs (snd (snd r)) = [] \<and> pooled_txs (snd (snd r)) = []
            \<and> (\<exists>pre. snd (snd r) =
                  pre @ Transport_SendTransactions txs (Some err)
                        # debugf s (''sending transactions failed: '' @ err)))))
 \<and> (errs \<noteq> [] \<longrightarrow>
      (let r = sender_sendErrors env s st errs;
           res = SendErrors_result env errs
       in (fst r \<longleftrightarrow> res = None)
        \<and> transport_calls (snd (snd r)) = [Transport_SendErrors errs res]
        \<and> (res = None \<longrightarrow>
              ErrorsSent (fst (snd r)) = ErrorsSent st + of_nat (length errs)
            \<and> SendErrors (Errors (fst (snd r))) = SendErrors (Errors st))
        \<and> (\<forall>err. res = Some err \<longrightarrow>
              SendErrors (Errors (fst (snd r))) = SendErrors (Errors st) + 1
            \<and> ErrorsSent (fst (snd r)) = ErrorsSent st
            \<and> TransactionsSent (fst (snd r)) = TransactionsSent st
            \<and> reset_errs (snd (snd r)) = [] \<and> pooled_errs (snd (snd r)) = []
            \<and> (\<exists>pre. snd (snd r) =
                  pre @ Transport_SendErrors errs (Some err)
                        # debugf s (''sending errors failed: '' @ err)))))
 \<and> sender_sendTransactions env s st [] = (False, st, [])
 \<and> sender_sendErrors env s st [] = (False, st, [])"
proof -
  have tx: "\<exists>pre. snd (snd (sender_sendTransactions env s st txs)) =
              pre @ Transport_SendTransactions txs (Some err)
                    # debugf s (''sending transactions failed: '' @ err)"
    if "txs \<noteq> []" "SendTransactions_result env txs = Some err" for err
    using that
    by (simp add: sender_sendTransactions_def case_prod_beta Let_def)
  have er: "\<exists>pre. snd (snd (sender_sendErrors env s st errs)) =
              pre @ Transport_SendErrors errs (Some err)
                    # debugf s (''sending errors failed: '' @ err)"
    if "errs \<noteq> []" "SendErrors_result env errs = Some err" for err
    using that
    by (simp add: sender_sendErrors_def case_prod_beta Let_def)
  have e1: "sender_sendTransactions env s st [] = (False, st, [])"
    by (simp add: sender_sendTransactions_def)
  have e2: "sender_sendErrors env s st [] = (False, st, [])"
    by (simp add: sender_sendErrors_def)
  show ?thesis
    using tx er e1 e2
    by (simp add: Let_def sendTransactions_fst sendErrors_fst sendTransactions_log
        sendErrors_log sendTransactions_stats sendErrors_stats)
qed

theorem sender_send_outcome_witness:
  "fst (sender_sendTransactions ErrorTransport (sender init_state) zeroStats [TxPtr 1, TxPtr 2]) = False
 \<and> SendTransactions (Errors (fst (snd
      (sender_sendTransactions ErrorTransport (sender init_state) zeroStats [TxPtr 1, TxPtr 2])))) = 1
 \<and> fst (sender_sendErrors Discard (sender init_state) zeroStats [ErrPtr 1]) = True
 \<and> ErrorsSent (fst (snd (sender_sendErrors Discard (sender init_state) zeroStats [ErrPtr 1]))) = 1"
  using sender_send_outcome [where txs = "[TxPtr 1, TxPtr 2]" and env = ErrorTransport
          and s = "sender init_state" and st = zeroStats and errs = "[ErrPtr 1]"]
        sender_send_outcome [where txs = "[TxPtr 1, TxPtr 2]" and env = Discard
          and s = "sender init_state" and st = zeroStats and errs = "[ErrPtr 1]"]
  by (simp add: Let_def ErrorTransport_def Discard_def zeroStats_def)

subsection \<open>Failing context enrichment\<close>

text \<open>
  C8. With a context setter configured, if \<^verbatim>\<open>setContext\<close> fails on some record of the
  batch, then it is called on the records up to and including the first failing one and
  on no later record (\<open>k\<close> is the number of records before the first failure),
  \<^verbatim>\<open>Errors.SetContext\<close> grows by exactly 1 for the batch, and the transport is still
  called, once, with the full batch. This holds for transactions and for errors.
\<close>

theorem enrichment_stops_at_first_failure:
  assumes setter: "contextSetter s = Some setter"
  shows
  "((\<exists>tx\<in>set txs. tx_setContext env setter (preContext s) (postContext s) tx \<noteq> None) \<longrightarrow>
      (let r = sender_sendTransactions env s st txs;
           k = length (takeWhile (\<lambda>tx. tx_setContext env setter (preContext s) (postContext s) tx = None)
                         txs)
       in k < length txs
        \<and> setContext_calls (snd (snd r)) = map Tx_setContext (take (Suc k) txs)
        \<and> SetContext (Errors (fst (snd r))) = SetContext (Errors st) + 1
        \<and> transport_calls (snd (snd r)) =
            [Transport_SendTransactions txs (SendTransactions_result env txs)]))
 \<and> ((\<exists>e\<in>set errs. err_setContext env setter (preContext s) (postContext s) e \<noteq> None) \<longrightarrow>
      (let r = sender_sendErrors env s st errs;
           k = length (takeWhile (\<lambda>e. err_setContext env setter (preContext s) (postContext s) e = None)
                         errs)
       in k < length errs
        \<and> setContext_calls (snd (snd r)) = map Err_setContext (take (Suc k) errs)
        \<and> SetContext (Errors (fst (snd r))) = SetContext (Errors st) + 1
        \<and> transport_calls (snd (snd r)) =
            [Transport_SendErrors errs (SendErrors_result env errs)]))"
proof -
  have k_tx: "length (takeWhile P txs) < length txs"
    if "\<exists>tx\<in>set txs. \<not> P tx" for P
    using that by (rule takeWhile_short)
  have k_er: "length (takeWhile P errs) < length errs"
    if "\<exists>e\<in>set errs. \<not> P e" for P
    using that by (rule takeWhile_short)
  have sc_tx: "SetContext (Errors (fst (snd (sender_sendTransactions env s st txs)))) =
                 SetContext (Errors (snd (enrich s (tx_setContext env) Tx_setContext st txs)))"
    if "txs \<noteq> []"
    using that by (simp add: sender_sendTransactions_def case_prod_beta Let_def
        bump_SendTransactions_def split: option.splits)
  have sc_er: "SetContext (Errors (fst (snd (sender_sendErrors env s st errs)))) =
                 SetContext (Errors (snd (enrich s (err_setContext env) Err_setContext st errs)))"
    if "errs \<noteq> []"
    using that by (simp add: sender_sendErrors_def case_prod_beta Let_def
        bump_SendErrors_def split: option.splits)
  have cs_tx: "setContext_calls (snd (snd (sender_sendTransactions env s st txs))) =
                 setContext_calls (fst (enrich s (tx_setContext env) Tx_setContext st txs))"
    if "txs \<noteq> []"
    using that by (simp add: sender_sendTransactions_def case_prod_beta Let_def log_simps
        payload_tx_log debugf_log split: option.splits)
  have cs_er: "setContext_calls (snd (snd (sender_sendErrors env s st errs))) =
                 setContext_calls (fst (enrich s (err_setContext env) Err_setContext st errs))"
    if "errs \<noteq> []"
    using that by (simp add: sender_sendErrors_def case_prod_beta Let_def log_simps
        payload_err_log debugf_log split: option.splits)
  show ?thesis
  proof (intro conjI impI)
    assume f: "\<exists>tx\<in>set txs. tx_setContext env setter (preContext s) (postContext s) tx \<noteq> None"
    then have ne: "txs \<noteq> []" by auto
    from f have nall: "\<not> (\<forall>tx\<in>set txs. tx_setContext env setter (preContext s) (postContext s) tx = None)"
      by simp
    show "let r = sender_sendTransactions env s st txs;
           k = length (takeWhile (\<lambda>tx. tx_setContext env setter (preContext s) (postContext s) tx = None)
                         txs)
       in k < length txs
        \<and> setContext_calls (snd (snd r)) = map Tx_setContext (take (Suc k) txs)
        \<and> SetContext (Errors (fst (snd r))) = SetContext (Errors st) + 1
        \<and> transport_calls (snd (snd r)) =
            [Transport_SendTransactions txs (SendTransactions_result env txs)]"
      using ne nall k_tx [of "\<lambda>tx. tx_setContext env setter (preContext s) (postContext s) tx = None"] f
      by (simp add: Let_def sc_tx cs_tx enrich_SetContext [OF setter]
          enrich_tx_setContext_calls [OF setter] sendTransactions_log)
  next
    assume f: "\<exists>e\<in>set errs. err_setContext env setter (preContext s) (postContext s) e \<noteq> None"
    then have ne: "errs \<noteq> []" by auto
    from f have nall: "\<not> (\<forall>e\<in>set errs. err_setContext env setter (preContext s) (postContext s) e = None)"
      by simp
    show "let r = sender_sendErrors env s st errs;
           k = length (takeWhile (\<lambda>e. err_setContext env setter (preContext s) (postContext s) e = None)
                         errs)
       in k < length errs
        \<and> setContext_calls (snd (snd r)) = map Err_setContext (take (Suc k) errs)
        \<and> SetContext (Errors (fst (snd r))) = SetContext (Errors st) + 1
        \<and> transport_calls (snd (snd r)) =
            [Transport_SendErrors errs (SendErrors_result env errs)]"
      using ne nall k_er [of "\<lambda>e. err_setContext env setter (preContext s) (postContext s) e = None"] f
      by (simp add: Let_def sc_er cs_er enrich_SetContext [OF setter]
          enrich_err_setContext_calls [OF setter] sendErrors_log)
  qed
qed

theorem enrichment_stops_at_first_failure_witness:
  "setContext_calls (snd (snd (sender_sendTransactions FailingSetter
       ((sender init_state)\<lparr>contextSetter := Some 0\<rparr>) zeroStats [TxPtr 1, TxPtr 2, TxPtr 3])))
     = [Tx_setContext (TxPtr 1), Tx_setContext (TxPtr 2)]
 \<and> SetContext (Errors (fst (snd (sender_sendTransactions FailingSetter
       ((sender init_state)\<lparr>contextSetter := Some 0\<rparr>) zeroStats [TxPtr 1, TxPtr 2, TxPtr 3])))) = 1
 \<and> transport_calls (snd (snd (sender_sendTransactions FailingSetter
       ((sender init_state)\<lparr>contextSetter := Some 0\<rparr>) zeroStats [TxPtr 1, TxPtr 2, TxPtr 3])))
     = [Transport_SendTransactions [TxPtr 1, TxPtr 2, TxPtr 3] None]
 \<and> setContext_calls (snd (snd (sender_sendErrors FailingSetter
       ((sender init_state)\<lparr>contextSetter := Some 0\<rparr>) zeroStats [ErrPtr 2, ErrPtr 3])))
     = [Err_setContext (ErrPtr 2)]"
  using enrichment_stops_at_first_failure [where s = "(sender init_state)\<lparr>contextSetter := Some 0\<rparr>"
          and setter = 0 and txs = "[TxPtr 1, TxPtr 2, TxPtr 3]" and env = FailingSetter
          and errs = "[ErrPtr 2, ErrPtr 3]" and st = zeroStats]
  by (simp add: Let_def FailingSetter_def init_state_def zeroStats_def)

subsection \<open>Facts about the steps of an iteration\<close>

























subsection \<open>The error queue and its cap\<close>




subsection \<open>Facts about the handling of an event\<close>

lemma accumulate_dropped:
  "accumulate st (zeroStats\<lparr>TransactionsDropped := n\<rparr>) =
     st\<lparr>TransactionsDropped := TransactionsDropped st + n\<rparr>"
  by (cases st; cases "Errors st") (simp add: accumulate_def zeroStats_def)

















subsection \<open>A transaction that arrives at a full queue while the timer is pending\<close>

text \<open>
  C3. When a transaction arrives (it is the oldest in the channel), the timer is
  pending, and the append leaves the length of the queue unchanged, then the iteration
  does exactly this: the oldest queued transaction is reset and pooled, the new one is
  appended, one drop is added to \<^verbatim>\<open>TransactionsDropped\<close> of the shared stats, and the
  loop continues. Nothing else of the state changes (so the timer stays pending, with
  its interval), and the log holds no transport call, no timer reset and no completion
  signal.
\<close>

theorem saturated_arrival_waits_for_timer:
  assumes arrive: "t_transactions s = tx # ch"
    and pending: "flushC s"
    and saturated: "length (fst (receivedTransaction (maxTransactionQueueSize s) (transactions s) tx zeroStats))
                      = length (transactions s)"
  shows "iteration env RecvTransaction s =
           Next (s\<lparr>transactions := tl (transactions s) @ [tx], t_transactions := ch,
                   t_stats := (t_stats s)\<lparr>TransactionsDropped := TransactionsDropped (t_stats s) + 1\<rparr>\<rparr>)
                [Tx_reset (hd (transactions s)), TransactionPool_Put (hd (transactions s))]
       \<and> transport_calls [Tx_reset (hd (transactions s)), TransactionPool_Put (hd (transactions s))] = []
       \<and> timer_calls [Tx_reset (hd (transactions s)), TransactionPool_Put (hd (transactions s))] = []
       \<and> signal_calls [Tx_reset (hd (transactions s)), TransactionPool_Put (hd (transactions s))] = []"
proof -
  let ?m = "sint (maxTransactionQueueSize s)"
  let ?txs = "transactions s"
  have full: "0 < ?m \<and> ?m \<le> int (length ?txs)"
    using saturated by (auto simp: receivedTransaction_def Let_def split: if_splits)
  then have "int (length ?txs) = ?m"
    using saturated by (simp add: receivedTransaction_def Let_def) linarith
  then have n: "nat (int (length ?txs) - ?m + 1) = 1" by simp
  from full have ne: "?txs \<noteq> []" by auto
  then have t1: "take 1 ?txs = [hd ?txs]" and d1: "drop 1 ?txs = tl ?txs"
    by (cases ?txs; simp)+
  have r: "receivedTransaction (maxTransactionQueueSize s) ?txs tx zeroStats =
             (tl ?txs @ [tx], zeroStats\<lparr>TransactionsDropped := 1\<rparr>,
              [Tx_reset (hd ?txs), TransactionPool_Put (hd ?txs)])"
    using full n t1 d1 by (simp add: receivedTransaction_def recycle_tx_def zeroStats_def)
  have len: "length (tl ?txs @ [tx]) = length ?txs"
    using ne by simp
  show ?thesis
    using arrive pending r len
    by (simp add: iteration_def select_RecvTransaction_def accumulate_dropped log_simps)
qed

theorem saturated_arrival_waits_for_timer_witness:
  "\<exists>s cs. run [Loop ErrorTransport (SetFlushInterval 1000), Loop ErrorTransport (SetMaxTransactionQueueSize 1),
                Submit_transaction (TxPtr 1), Loop ErrorTransport RecvTransaction,
                Submit_transaction (TxPtr 2)] init_state = Some (s, cs)
     \<and> transactions s = [TxPtr 1] \<and> t_transactions s = [TxPtr 2] \<and> flushC s
     \<and> (\<exists>s1. iteration ErrorTransport RecvTransaction s =
                 Next s1 [Tx_reset (TxPtr 1), TransactionPool_Put (TxPtr 1)]
            \<and> transactions s1 = [TxPtr 2] \<and> flushC s1
            \<and> TransactionsDropped (t_stats s1) = 1 \<and> SendTransactions (Errors (t_stats s1)) = 1)"
proof -
  let ?acts = "[Loop ErrorTransport (SetFlushInterval 1000), Loop ErrorTransport (SetMaxTransactionQueueSize 1),
                Submit_transaction (TxPtr 1), Loop ErrorTransport RecvTransaction,
                Submit_transaction (TxPtr 2)]"
  have "map_option (\<lambda>(s, cs). (maxTransactionQueueSize s, transactions s, t_transactions s, flushC s,
            TransactionsDropped (t_stats s), SendTransactions (Errors (t_stats s))))
          (run ?acts init_state) = Some (1, [TxPtr 1], [TxPtr 2], True, 0, 1)"
    by code_simp
  then obtain s cs where r: "run ?acts init_state = Some (s, cs)"
    and v: "maxTransactionQueueSize s = 1" "transactions s = [TxPtr 1]" "t_transactions s = [TxPtr 2]"
      "flushC s" "TransactionsDropped (t_stats s) = 0" "SendTransactions (Errors (t_stats s)) = 1"
    by auto
  have sat: "length (fst (receivedTransaction (maxTransactionQueueSize s) (transactions s) (TxPtr 2) zeroStats))
               = length (transactions s)"
    using v by (simp add: receivedTransaction_def Let_def)
  from saturated_arrival_waits_for_timer [OF v(3) v(4) sat, of ErrorTransport] r v
  show ?thesis by simp
qed

subsection \<open>When records go back to their pools\<close>




subsection \<open>A cap of zero on the error queue\<close>

text \<open>
  C7 fails on the code for \<^verbatim>\<open>maxErrorQueueSize = 0\<close>. After
  \<^verbatim>\<open>SetMaxErrorQueueSize(0)\<close> and a Flush on an idle tracer, \<^verbatim>\<open>sendErrors\<close> returns false
  for the empty queue and the test \<^verbatim>\<open>len(errors) == maxErrorQueueSize\<close> is \<open>0 = 0\<close>, so
  \<^verbatim>\<open>errorsC\<close> is set to nil. An error submitted afterwards stays in the channel: the
  receive from \<^verbatim>\<open>errorsC\<close> is not ready, the drain is skipped (the remainder is 0), and a
  second Flush completes without any transport call.
\<close>

theorem zero_cap_closes_error_ingress:
  "map_option (\<lambda>(s, cs). (sint (maxErrorQueueSize s), errorsC s, errors s, t_errors s,
                           iteration Discard RecvError s, transport_calls cs, signal_calls cs))
     (run [Loop Discard (SetMaxErrorQueueSize 0), Loop Discard (ForceFlush 7),
           Submit_error (ErrPtr 1), Loop Discard (ForceFlush 8)] init_state)
   = Some (0, False, [], [ErrPtr 1], NotReady, [], [7, 8])"
  by code_simp


subsection \<open>The errors in the send phase\<close>





subsection \<open>SetProcessor\<close>



subsection \<open>Facts about the end of the send phase\<close>


lemma word64_one_neq_zero: "(1 :: uint64) \<noteq> 0"
  by simp




lemma FlushTimerFired_no_continue: "select_case FlushTimerFired s \<noteq> Some (Continue s1 cs)"
  by simp

subsection \<open>Forced flush\<close>




end
